theory Spec2Isabelle
  imports Complex_Main "HOL-Library.Sublist"
begin

section \<open>Python values shared by the three applications\<close>

text \<open>
  Python floats are modelled by the value they denote: a finite float is the real number
  it stands for, and the three non-finite values are constructors of their own.
  Comparisons follow IEEE 754 as Python does: every comparison with NaN is false.
\<close>

datatype pyfloat = Fin real | PosInf | NegInf | NaN

fun float_lt :: "pyfloat \<Rightarrow> pyfloat \<Rightarrow> bool" where
  "float_lt NaN _ = False"
| "float_lt _ NaN = False"
| "float_lt (Fin a) (Fin b) = (a < b)"
| "float_lt (Fin _) PosInf = True"
| "float_lt (Fin _) NegInf = False"
| "float_lt PosInf _ = False"
| "float_lt NegInf NegInf = False"
| "float_lt NegInf _ = True"

fun float_le :: "pyfloat \<Rightarrow> pyfloat \<Rightarrow> bool" where
  "float_le NaN _ = False"
| "float_le _ NaN = False"
| "float_le (Fin a) (Fin b) = (a \<le> b)"
| "float_le (Fin _) PosInf = True"
| "float_le (Fin _) NegInf = False"
| "float_le PosInf PosInf = True"
| "float_le PosInf _ = False"
| "float_le NegInf _ = True"

text \<open>
  An exception that a Python call raises is a value: the left summand of a result.
  \<open>KeyError k\<close> is the lookup of an absent dictionary key, \<open>ValidationError\<close> the
  rejection of a structured model output by its schema, \<open>ModelError\<close> any failure of
  the model call itself.
\<close>

datatype error =
  KeyError string | ValidationError string | ModelError string | ValueError string

text \<open>
  A call into a library that may raise: \<open>Raises m\<close> is an exception caught by
  \<open>except Exception as e\<close>, with \<open>m\<close> the text of \<open>str(e)\<close>. What passes
  such a handler (\<open>SystemExit\<close>, \<open>KeyboardInterrupt\<close>) and a call that does not
  return are outside the model.
\<close>

datatype 'a outcome = Returns 'a | Raises string

subsection \<open>Strings\<close>

text \<open>
  A Python string is modelled by the list of the bytes of its UTF-8 encoding. The case
  mappings \<open>str.lower\<close> and \<open>str.upper\<close> are modelled on the ASCII letters and
  \<open>str.strip\<close> on the ASCII whitespace (the characters for which \<open>str.isspace\<close>
  holds below 128: 9 to 13 and 28 to 32); the bytes of other characters are left alone.
\<close>

definition lower_char :: "char \<Rightarrow> char" where
  "lower_char c =
     (let n = (of_char c :: nat) in if 65 \<le> n \<and> n \<le> 90 then char_of (n + 32) else c)"

definition upper_char :: "char \<Rightarrow> char" where
  "upper_char c =
     (let n = (of_char c :: nat) in if 97 \<le> n \<and> n \<le> 122 then char_of (n - 32) else c)"

definition is_space :: "char \<Rightarrow> bool" where
  "is_space c =
     (let n = (of_char c :: nat) in (9 \<le> n \<and> n \<le> 13) \<or> (28 \<le> n \<and> n \<le> 32))"

definition lower :: "string \<Rightarrow> string" where
  "lower s = map lower_char s"

definition upper :: "string \<Rightarrow> string" where
  "upper s = map upper_char s"

definition strip :: "string \<Rightarrow> string" where
  "strip s = rev (dropWhile is_space (rev (dropWhile is_space s)))"

text \<open>\<open>str(n)\<close> for an integer: its decimal digits, with a minus sign when negative.\<close>

fun str_nat :: "nat \<Rightarrow> string" where
  "str_nat n =
     (if n < 10 then [char_of (48 + n)] else str_nat (n div 10) @ [char_of (48 + n mod 10)])"

definition str_int :: "int \<Rightarrow> string" where
  "str_int i = (if i < 0 then CHR ''-'' # str_nat (nat (- i)) else str_nat (nat i))"

text \<open>
  \<open>round(x, 2)\<close> on a float rounds the exact value of \<open>x\<close> to two decimal places,
  a tie going to the even neighbour, and returns the float nearest to that decimal; the
  model returns the decimal itself. NaN and the infinities are returned unchanged.
\<close>

definition round_half_even :: "real \<Rightarrow> int" where
  "round_half_even x =
     (let f = \<lfloor>x\<rfloor>; d = x - of_int f
      in if d < 1 / 2 then f else if 1 / 2 < d then f + 1 else if even f then f else f + 1)"

fun round2 :: "pyfloat \<Rightarrow> pyfloat" where
  "round2 (Fin x) = Fin (of_int (round_half_even (x * 100)) / 100)"
| "round2 PosInf = PosInf"
| "round2 NegInf = NegInf"
| "round2 NaN = NaN"

definition nl :: char where
  "nl = CHR 0x0A"

definition dq :: char where
  "dq = CHR 0x22"

definition sq :: char where
  "sq = CHR 0x27"

section \<open>Feedback-driven blog agent\<close>

subsection \<open>State\<close>

text \<open>
  \<open>BlogState\<close> is a \<open>TypedDict\<close>: a dictionary whose keys may be absent (the run
  starts from \<open>{"topic": ...}\<close> alone), so every field is optional. \<open>state[k]\<close> on
  an absent key raises \<open>KeyError\<close>; \<open>state.get(k, d)\<close> yields \<open>d\<close>.
\<close>

record BlogState =
  topic :: "string option"
  outline :: "string option"
  final_blog :: "string option"
  blog_score :: "pyfloat option"
  feedback :: "string option"

subsection \<open>Router\<close>

text \<open>
  \<^verbatim>\<open>
  def blog_optimizer(state: BlogState) -> str:
      if state["blog_score"] < 7.0:
          return "optimize blog"
      return "end"
  \<close>
\<close>

definition blog_optimizer :: "BlogState \<Rightarrow> error + string" where
  "blog_optimizer state =
     (case blog_score state of
        None \<Rightarrow> Inl (KeyError ''blog_score'')
      | Some s \<Rightarrow> if float_lt s (Fin 7) then Inr ''optimize blog'' else Inr ''end'')"

subsection \<open>Model clients\<close>

text \<open>
  The two model clients are external: \<open>llm.invoke(prompt).content\<close> is a text, and the
  judge bound to the \<open>BlogEvaluation\<close> schema yields a structured object. Both run at
  a temperature the code fixes, so the same prompt may be answered differently on a
  later call: a client is a function of the number of calls made to it before and of the
  prompt. A call may fail.
\<close>

record raw_evaluation =
  raw_score :: "pyfloat option"
  raw_feedback :: "string option"

record clients =
  llm :: "nat \<Rightarrow> string \<Rightarrow> error + string"
  llm_judge :: "nat \<Rightarrow> string \<Rightarrow> error + raw_evaluation"

record calls =
  llm_calls :: nat
  judge_calls :: nat

text \<open>
  \<^verbatim>\<open>
  class BlogEvaluation(BaseModel):
      score: float = Field(..., ge=0.0, le=10.0)
      feedback: str = Field(..., description="What needs improvement in the blog")
  \<close>
\<close>

datatype BlogEvaluation = BlogEvaluation (score: pyfloat) (evaluation_feedback: string)

text \<open>
  Modelled from the spec: the schema validation that \<open>with_structured_output\<close> applies
  to the judge's answer is library code. "If a schema is given, the result must validate
  against it (numeric fields within declared bounds, required string fields present) or
  the call fails": the raw answer carries a score when it has a number there and a
  feedback when it has a string there, and the bounds are the \<open>ge\<close> and \<open>le\<close> of the
  field declaration.
\<close>

definition validate_BlogEvaluation :: "raw_evaluation \<Rightarrow> error + BlogEvaluation" where
  "validate_BlogEvaluation raw =
     (case raw_score raw of
        None \<Rightarrow> Inl (ValidationError ''score'')
      | Some s \<Rightarrow>
          if \<not> float_le (Fin 0) s then Inl (ValidationError ''score'')
          else if \<not> float_le s (Fin 10) then Inl (ValidationError ''score'')
          else (case raw_feedback raw of
                  None \<Rightarrow> Inl (ValidationError ''feedback'')
                | Some f \<Rightarrow> Inr (BlogEvaluation s f)))"

subsection \<open>Nodes\<close>





text \<open>
  \<^verbatim>\<open>
  def score_blog(state: BlogState) -> BlogState:
      prompt = f"""
  Evaluate the blog based on how well it follows the outline.

  Outline:
  {state['outline']}

  Blog:
  {state['final_blog']}

  Return JSON only:
  {{"score": number between 0 and 10, "feedback": "how to improve"}}
  """
      judge = llm_judge.with_structured_output(BlogEvaluation)
      result = judge.invoke(prompt)
      state["blog_score"] = result.score
      state["feedback"] = result.feedback
      return state
  \<close>
\<close>

definition score_prompt :: "string \<Rightarrow> string \<Rightarrow> string" where
  "score_prompt ol blog =
     [nl] @ ''Evaluate the blog based on how well it follows the outline.'' @ [nl, nl] @
     ''Outline:'' @ [nl] @ ol @ [nl, nl] @
     ''Blog:'' @ [nl] @ blog @ [nl, nl] @
     ''Return JSON only:'' @ [nl] @
     ''{'' @ [dq] @ ''score'' @ [dq] @ '': number between 0 and 10, '' @
     [dq] @ ''feedback'' @ [dq] @ '': '' @ [dq] @ ''how to improve'' @ [dq] @ ''}'' @ [nl]"

definition score_blog ::
  "clients \<Rightarrow> calls \<Rightarrow> BlogState \<Rightarrow> error + calls \<times> BlogState" where
  "score_blog cl w state =
     (case outline state of
        None \<Rightarrow> Inl (KeyError ''outline'')
      | Some ol \<Rightarrow>
          (case final_blog state of
             None \<Rightarrow> Inl (KeyError ''final_blog'')
           | Some blog \<Rightarrow>
               (case llm_judge cl (judge_calls w) (score_prompt ol blog) of
                  Inl e \<Rightarrow> Inl e
                | Inr raw \<Rightarrow>
                    (case validate_BlogEvaluation raw of
                       Inl e \<Rightarrow> Inl e
                     | Inr result \<Rightarrow>
                         Inr (w\<lparr>judge_calls := Suc (judge_calls w)\<rparr>,
                              state\<lparr>blog_score := Some (score result),
                                    feedback := Some (evaluation_feedback result)\<rparr>)))))"

subsection \<open>Graph\<close>





subsection \<open>Vocabulary of the properties\<close>





definition lenient_clients :: clients where
  "lenient_clients =
     \<lparr>llm = (\<lambda>i p. Inr ''text''),
      llm_judge = (\<lambda>i p. Inr \<lparr>raw_score = Some (if i = 0 then Fin 5.5 else Fin 8),
                               raw_feedback = Some ''add more examples''\<rparr>)\<rparr>"

text \<open>
  A state as the scoring step finds it, and a judge that answers with a score of 11.
\<close>

definition drafted_state :: BlogState where
  "drafted_state =
     \<lparr>topic = Some ''Cats vs Dogs'', outline = Some ''outline'', final_blog = Some ''draft'',
      blog_score = None, feedback = None\<rparr>"

definition generous_clients :: clients where
  "generous_clients =
     \<lparr>llm = (\<lambda>i p. Inr ''text''),
      llm_judge = (\<lambda>i p. Inr \<lparr>raw_score = Some (Fin 11), raw_feedback = Some ''perfect''\<rparr>)\<rparr>"

section \<open>Stock market agent\<close>

subsection \<open>Suspension\<close>

text \<open>
  Modelled from the spec: \<open>interrupt\<close> belongs to the graph library. "A step may request
  suspension with a question and a unique continuation point. [...] On a later resume
  call supplying an answer, the engine [...] injects the answer in place of the original
  step's pending return value, and continues execution from exactly the point it
  suspended." A computation that may suspend is therefore either finished with a value or
  waiting with a question and the rest of the computation, which takes the answer.
\<close>

datatype 'a run = Return 'a | Interrupt string "string \<Rightarrow> 'a run"

definition interrupt :: "string \<Rightarrow> (string \<Rightarrow> 'a run) \<Rightarrow> 'a run" where
  "interrupt question rest = Interrupt question rest"

fun resume :: "'a run \<Rightarrow> string \<Rightarrow> 'a run" where
  "resume (Interrupt question rest) answer = rest answer"
| "resume (Return x) answer = Return x"

subsection \<open>Tools\<close>

text \<open>
  The price history that \<open>yf.Ticker(symbol).history(period=period)\<close> returns is
  observed by the tool in two places: \<open>history.empty\<close>, and
  \<open>float(history["Close"].iloc[-1])\<close>, which may raise.
\<close>

record history =
  empty_history :: bool
  close_iloc_last :: "pyfloat outcome"

datatype tool_value = Text string | Number pyfloat

text \<open>
  \<^verbatim>\<open>
  @tool
  def get_stock_price(ticker_symbol: str, period: str = "1d") -> float:
      symbol = ticker_symbol.upper().strip()
      try:
          stock = yf.Ticker(symbol)
          history = stock.history(period=period)
          if history.empty:
              return f"Error: No data found for symbol '{symbol}'. Check if the ticker is correct."
          current_price = history["Close"].iloc[-1]
          return round(float(current_price), 2)
      except Exception as e:
          return f"An error occurred: {e}"
  \<close>
  The market-data provider is a parameter: from a symbol and a period it returns a
  history or raises.
\<close>

definition get_stock_price ::
  "(string \<Rightarrow> string \<Rightarrow> history outcome) \<Rightarrow> string \<Rightarrow> string \<Rightarrow> tool_value" where
  "get_stock_price yf ticker_symbol period =
     (let symbol = strip (upper ticker_symbol)
      in case yf symbol period of
           Raises e \<Rightarrow> Text (''An error occurred: '' @ e)
         | Returns h \<Rightarrow>
             if empty_history h
             then Text (''Error: No data found for symbol '' @ [sq] @ symbol @ [sq] @
                        ''. Check if the ticker is correct.'')
             else (case close_iloc_last h of
                     Raises e \<Rightarrow> Text (''An error occurred: '' @ e)
                   | Returns current_price \<Rightarrow> Number (round2 current_price)))"

text \<open>The two emoji of the messages, as their UTF-8 bytes: U+274C and U+2705.\<close>

definition cross_mark :: string where
  "cross_mark = [CHR 0xE2, CHR 0x9D, CHR 0x8C]"

definition check_mark :: string where
  "check_mark = [CHR 0xE2, CHR 0x9C, CHR 0x85]"

text \<open>
  \<^verbatim>\<open>
  @tool
  def buy_stocks(ticker_symbol: str, quantity: int, total_price: float) -> str:
      if quantity <= 0:
          return "(cross) Error: Quantity must be positive"
      if total_price <= 0:
          return "(cross) Error: Total price must be positive"
      decision = interrupt(
          f"Do you want to buy {quantity} shares of {ticker_symbol} for ${total_price}? (yes/no)")
      if decision.lower() == "yes":
          return f"(check) You bought {quantity} shares of {ticker_symbol} for ${total_price}."
      else:
          return "(cross) Transaction cancelled."
  \<close>
  The text of a float in an f-string is its shortest round-trip representation, which is
  a matter of floating point: the function \<open>str_float\<close> that produces it is a parameter.
\<close>

definition buy_stocks :: "(pyfloat \<Rightarrow> string) \<Rightarrow> string \<Rightarrow> int \<Rightarrow> pyfloat \<Rightarrow> string run" where
  "buy_stocks str_float ticker_symbol quantity total_price =
     (if quantity \<le> 0 then Return (cross_mark @ '' Error: Quantity must be positive'')
      else if float_le total_price (Fin 0)
      then Return (cross_mark @ '' Error: Total price must be positive'')
      else interrupt
             (''Do you want to buy '' @ str_int quantity @ '' shares of '' @ ticker_symbol @
              '' for $'' @ str_float total_price @ ''? (yes/no)'')
             (\<lambda>decision.
                if lower decision = ''yes''
                then Return (check_mark @ '' You bought '' @ str_int quantity @ '' shares of '' @
                             ticker_symbol @ '' for $'' @ str_float total_price @ ''.'')
                else Return (cross_mark @ '' Transaction cancelled.'')))"

text \<open>
  \<^verbatim>\<open>
  @tool
  def sell_stocks(ticker_symbol: str, quantity: int, total_price: float) -> str:
      if quantity <= 0:
          return "(cross) Error: Quantity must be positive"
      if total_price <= 0:
          return "(cross) Error: Total price must be positive"
      decision = interrupt(
          f"Do you want to sell {quantity} shares of {ticker_symbol} for ${total_price}? (yes/no)")
      if decision.lower() == "yes":
          return f"(check) You sold {quantity} shares of {ticker_symbol} for ${total_price}."
      else:
          return "(cross) Transaction cancelled."
  \<close>
\<close>

definition sell_stocks :: "(pyfloat \<Rightarrow> string) \<Rightarrow> string \<Rightarrow> int \<Rightarrow> pyfloat \<Rightarrow> string run" where
  "sell_stocks str_float ticker_symbol quantity total_price =
     (if quantity \<le> 0 then Return (cross_mark @ '' Error: Quantity must be positive'')
      else if float_le total_price (Fin 0)
      then Return (cross_mark @ '' Error: Total price must be positive'')
      else interrupt
             (''Do you want to sell '' @ str_int quantity @ '' shares of '' @ ticker_symbol @
              '' for $'' @ str_float total_price @ ''? (yes/no)'')
             (\<lambda>decision.
                if lower decision = ''yes''
                then Return (check_mark @ '' You sold '' @ str_int quantity @ '' shares of '' @
                             ticker_symbol @ '' for $'' @ str_float total_price @ ''.'')
                else Return (cross_mark @ '' Transaction cancelled.'')))"

text \<open>
  \<^verbatim>\<open>
  tools = [get_stock_price, buy_stocks, sell_stocks, get_current_datetime]
  \<close>
  A tool call, as the model requests it, names one of the four tools and carries
  arguments of the tool's types. What the tools take from outside is gathered in an
  environment: the market-data provider, the text of a float, and the text that
  \<open>datetime.now().strftime(...)\<close> yields.
\<close>

datatype stock_call =
  Get_stock_price string string
| Buy_stocks string int pyfloat
| Sell_stocks string int pyfloat
| Get_current_datetime

record stock_env =
  yf :: "string \<Rightarrow> string \<Rightarrow> history outcome"
  str_float :: "pyfloat \<Rightarrow> string"
  now :: string

text \<open>The content of a tool message is the text of the tool's result.\<close>

fun content_of :: "(pyfloat \<Rightarrow> string) \<Rightarrow> tool_value \<Rightarrow> string" where
  "content_of sf (Text s) = s"
| "content_of sf (Number x) = sf x"

fun stock_tools :: "stock_env \<Rightarrow> stock_call \<Rightarrow> string run" where
  "stock_tools env (Get_stock_price ticker_symbol period) =
     Return (content_of (str_float env) (get_stock_price (yf env) ticker_symbol period))"
| "stock_tools env (Buy_stocks ticker_symbol quantity total_price) =
     buy_stocks (str_float env) ticker_symbol quantity total_price"
| "stock_tools env (Sell_stocks ticker_symbol quantity total_price) =
     sell_stocks (str_float env) ticker_symbol quantity total_price"
| "stock_tools env Get_current_datetime = Return (now env)"

section \<open>Conversational graphs\<close>

subsection \<open>Messages\<close>

text \<open>
  The state of both conversational graphs is the list of messages
  (\<open>messages: Annotated[list, add_messages]\<close>). An assistant message carries the tool
  calls the model asks for; \<open>add_messages\<close> appends a node's update to the list.
\<close>

datatype 'c message =
  SystemMessage string
| HumanMessage string
| AIMessage string "'c list"
| ToolMessage string

fun tool_calls :: "'c message \<Rightarrow> 'c list" where
  "tool_calls (AIMessage content cs) = cs"
| "tool_calls _ = []"

definition add_messages :: "'c message list \<Rightarrow> 'c message list \<Rightarrow> 'c message list" where
  "add_messages left right = left @ right"

subsection \<open>Agent steps\<close>


text \<open>
  \<^verbatim>\<open>
  def agent(state: AgentState) -> AgentState:
      system_prompt = SystemMessage(content="""
          You are a stock market trading agent. Your goal is to help users make informed decisions about buying and selling stocks.
          Answer the user queries using the available tools to get stock prices, buy stocks, sell stocks, and get the current date and time.
          Be accurate and concise in your responses.
          """)
      response = llm.invoke([system_prompt] + state["messages"])
      return {"messages": [response]}
  \<close>
\<close>

definition system_prompt :: string where
  "system_prompt =
     [nl] @ ''        You are a stock market trading agent. Your goal is to help users make informed decisions about buying and selling stocks.'' @
     [nl] @ ''        Answer the user queries using the available tools to get stock prices, buy stocks, sell stocks, and get the current date and time.'' @
     [nl] @ ''        Be accurate and concise in your responses.'' @
     [nl] @ ''        ''"

definition agent :: "('c message list \<Rightarrow> 'c message) \<Rightarrow> 'c message list \<Rightarrow> 'c message list" where
  "agent bound_llm messages = [bound_llm ([SystemMessage system_prompt] @ messages)]"

subsection \<open>Routing\<close>

text \<open>
  Modelled from the spec: \<open>tools_condition\<close> is a router of the graph library. "After
  the agent step runs, inspect whether the model's response includes one or more tool
  calls. If yes, route to a tool-execution step [...]. If no tool calls are present,
  route to the terminal marker." The response is the last message of the state; a state
  without messages is an error.
\<close>

definition tools_condition :: "'c message list \<Rightarrow> error + string" where
  "tools_condition messages =
     (if messages = [] then Inl (ValueError ''No messages found in input state to tool_edge'')
      else if tool_calls (last messages) \<noteq> [] then Inr ''tools''
      else Inr ''__end__'')"

subsection \<open>Engine\<close>

text \<open>
  \<^verbatim>\<open>
  graph.add_edge(START, "agent")
  graph.add_conditional_edges("agent", tools_condition)
  graph.add_edge("tools", "agent")
  \<close>
  and the same three declarations in the chatbot, with \<open>chat_node\<close> for \<open>agent\<close>.
  The chatbot declares \<open>graph.add_edge("chat_node", END)\<close> as well; an edge to the
  terminal marker starts no step, so the steps that run are the same.

  Modelled from the spec: the engine and the tool-execution step belong to the graph
  library. The engine "runs steps sequentially [...] until a terminal marker is reached
  or a step requests suspension"; the tool-execution step "runs each requested tool,
  appends its result as a tool message, and routes back to the agent step"; on
  suspension the engine "saves the full state and the continuation point, ceases
  execution, and returns control to the caller with an awaiting-input signal carrying
  the question text", and a resume "continues execution from exactly the point it
  suspended".

  A position of the engine is either before the agent step, or inside the
  tool-execution step with one tool running and the calls still to run. Every position
  carries the names of the steps started so far and the messages.
\<close>

datatype 'c position =
  AtAgent "string list" "'c message list"
| AtTools "string list" "'c message list" "string run" "'c list"

datatype 'c suspension =
  Suspension "string list" "'c message list" "string \<Rightarrow> string run" "'c list"

datatype 'c graph_outcome =
  Completed "string list" "'c message list"
| AwaitingInput string "'c suspension"
| Failed error

partial_function (option) drive ::
  "('c message list \<Rightarrow> 'c message list) \<Rightarrow> ('c \<Rightarrow> string run) \<Rightarrow> 'c position \<Rightarrow>
   'c graph_outcome option" where
  "drive node tools pos =
     (case pos of
        AtAgent steps messages \<Rightarrow>
          (let messages' = add_messages messages (node messages);
               steps' = steps @ [''agent'']
           in case tools_condition messages' of
                Inl e \<Rightarrow> Some (Failed e)
              | Inr route \<Rightarrow>
                  if route = ''tools''
                  then (case tool_calls (last messages') of
                          [] \<Rightarrow> drive node tools (AtAgent (steps' @ [''tools'']) messages')
                        | c # cs \<Rightarrow>
                            drive node tools
                              (AtTools (steps' @ [''tools'']) messages' (tools c) cs))
                  else Some (Completed steps' messages'))
      | AtTools steps messages (Return text) [] \<Rightarrow>
          drive node tools (AtAgent steps (add_messages messages [ToolMessage text]))
      | AtTools steps messages (Return text) (c # cs) \<Rightarrow>
          drive node tools
            (AtTools steps (add_messages messages [ToolMessage text]) (tools c) cs)
      | AtTools steps messages (Interrupt question rest) cs \<Rightarrow>
          Some (AwaitingInput question (Suspension steps messages rest cs)))"

text \<open>
  \<^verbatim>\<open>
  response = app.invoke({"messages": [{"role": "user", "content": user_input}]}, config=config)
  response = app.invoke(Command(resume="yes"), config=config)
  \<close>
  A call with a new user message runs the graph from its start on the messages of the
  thread followed by the new one. A call with a resume command continues the saved
  suspension with the answer.
\<close>

definition invoke_thread ::
  "('c message list \<Rightarrow> 'c message list) \<Rightarrow> ('c \<Rightarrow> string run) \<Rightarrow> 'c message list \<Rightarrow> string \<Rightarrow>
   'c graph_outcome option" where
  "invoke_thread node tools thread user_input =
     drive node tools (AtAgent [] (add_messages thread [HumanMessage user_input]))"

fun resume_thread ::
  "('c message list \<Rightarrow> 'c message list) \<Rightarrow> ('c \<Rightarrow> string run) \<Rightarrow> 'c suspension \<Rightarrow> string \<Rightarrow>
   'c graph_outcome option" where
  "resume_thread node tools (Suspension steps messages rest cs) answer =
     drive node tools (AtTools steps messages (rest answer) cs)"

section \<open>Chatbot\<close>

subsection \<open>Calculator tool\<close>


subsection \<open>An interpreter for integer arithmetic\<close>















section \<open>Vocabulary of the properties of the stock market agent\<close>

text \<open>
  A suspended computation and its question; the three messages of a trade; what it
  means for a text to name a trade: the ticker symbol, the text of the quantity and the
  text of the price occur in it.
\<close>

fun suspended :: "'a run \<Rightarrow> bool" where
  "suspended (Interrupt question rest) = True"
| "suspended (Return x) = False"

fun question_of :: "'a run \<Rightarrow> string option" where
  "question_of (Interrupt question rest) = Some question"
| "question_of (Return x) = None"

definition buy_question :: "(pyfloat \<Rightarrow> string) \<Rightarrow> string \<Rightarrow> int \<Rightarrow> pyfloat \<Rightarrow> string" where
  "buy_question sf ticker_symbol quantity total_price =
     ''Do you want to buy '' @ str_int quantity @ '' shares of '' @ ticker_symbol @
     '' for $'' @ sf total_price @ ''? (yes/no)''"

definition sell_question :: "(pyfloat \<Rightarrow> string) \<Rightarrow> string \<Rightarrow> int \<Rightarrow> pyfloat \<Rightarrow> string" where
  "sell_question sf ticker_symbol quantity total_price =
     ''Do you want to sell '' @ str_int quantity @ '' shares of '' @ ticker_symbol @
     '' for $'' @ sf total_price @ ''? (yes/no)''"

definition bought :: "(pyfloat \<Rightarrow> string) \<Rightarrow> string \<Rightarrow> int \<Rightarrow> pyfloat \<Rightarrow> string" where
  "bought sf ticker_symbol quantity total_price =
     check_mark @ '' You bought '' @ str_int quantity @ '' shares of '' @ ticker_symbol @
     '' for $'' @ sf total_price @ ''.''"

definition sold :: "(pyfloat \<Rightarrow> string) \<Rightarrow> string \<Rightarrow> int \<Rightarrow> pyfloat \<Rightarrow> string" where
  "sold sf ticker_symbol quantity total_price =
     check_mark @ '' You sold '' @ str_int quantity @ '' shares of '' @ ticker_symbol @
     '' for $'' @ sf total_price @ ''.''"

definition cancelled :: string where
  "cancelled = cross_mark @ '' Transaction cancelled.''"

definition quantity_error :: string where
  "quantity_error = cross_mark @ '' Error: Quantity must be positive''"

definition price_error :: string where
  "price_error = cross_mark @ '' Error: Total price must be positive''"

definition names_trade :: "string \<Rightarrow> string \<Rightarrow> int \<Rightarrow> string \<Rightarrow> bool" where
  "names_trade text ticker_symbol quantity price_text =
     (sublist ticker_symbol text \<and> sublist (str_int quantity) text \<and> sublist price_text text)"

definition no_data_message :: "string \<Rightarrow> string" where
  "no_data_message symbol =
     ''Error: No data found for symbol '' @ [sq] @ symbol @ [sq] @
     ''. Check if the ticker is correct.''"

text \<open>
  A concrete environment: a provider that knows one symbol, whose last close is
  150.1875, fails on a second one, returns for a third one a history without the column
  of closing prices, and answers with an empty history for every other symbol; a text
  for the prices of the examples; a clock.
\<close>

definition sample_yf :: "string \<Rightarrow> string \<Rightarrow> history outcome" where
  "sample_yf symbol period =
     (if symbol = ''AAPL''
      then Returns \<lparr>empty_history = False, close_iloc_last = Returns (Fin (2403 / 16))\<rparr>
      else if symbol = ''DOWN'' then Raises ''connection refused''
      else if symbol = ''BARE''
      then Returns \<lparr>empty_history = False, close_iloc_last = Raises ([sq] @ ''Close'' @ [sq])\<rparr>
      else Returns \<lparr>empty_history = True, close_iloc_last = Raises ''single positional indexer is out-of-bounds''\<rparr>)"

definition sample_str_float :: "pyfloat \<Rightarrow> string" where
  "sample_str_float x = (if x = Fin 1500 then ''1500.0'' else if x = Fin (15019 / 100) then ''150.19'' else ''nan'')"

definition sample_env :: stock_env where
  "sample_env = \<lparr>yf = sample_yf, str_float = sample_str_float, now = ''2026-01-05 09:30:00''\<rparr>"

text \<open>
  A model that asks for the purchase of ten shares when the last message is the user's
  and answers in words otherwise.
\<close>

definition sample_llm :: "stock_call message list \<Rightarrow> stock_call message" where
  "sample_llm messages =
     (case last messages of
        HumanMessage text \<Rightarrow> AIMessage [] [Buy_stocks ''AAPL'' 10 (Fin 1500)]
      | _ \<Rightarrow> AIMessage ''Done.'' [])"


section \<open>Properties of the blog agent\<close>

text \<open>
  Claim C2, as stated: the router returns the label "optimize" exactly for scores below
  7.0. The code's label for that branch is "optimize blog": at score 5.0, which is below
  7.0, the router does not return "optimize".
\<close>

theorem blog_optimizer_label_counterexample:
  "float_lt (Fin 5) (Fin 7) \<and>
   blog_optimizer \<lparr>topic = None, outline = None, final_blog = None,
                    blog_score = Some (Fin 5), feedback = None\<rparr> \<noteq> Inr ''optimize''"
  by (simp add: blog_optimizer_def)

text \<open>
  Claim C2, amended: for every score \<open>s\<close> (NaN and the infinities included), the router
  applied to a state with \<open>blog_score = s\<close> returns "optimize blog" if and only if
  \<open>s < 7.0\<close>, and returns "end" otherwise; at the boundary \<open>s = 7.0\<close> it returns
  "end".
\<close>

theorem blog_optimizer_routes:
  assumes "blog_score state = Some s"
  shows "(blog_optimizer state = Inr ''optimize blog'' \<longleftrightarrow> float_lt s (Fin 7)) \<and>
         (\<not> float_lt s (Fin 7) \<longrightarrow> blog_optimizer state = Inr ''end'') \<and>
         (s = Fin 7 \<longrightarrow> blog_optimizer state = Inr ''end'')"
  using assms by (simp add: blog_optimizer_def)

theorem blog_optimizer_routes_witness:
  "blog_score \<lparr>topic = None, outline = None, final_blog = None,
               blog_score = Some (Fin 7), feedback = None\<rparr> = Some (Fin 7) \<and>
   \<not> float_lt (Fin 7) (Fin 7) \<and>
   blog_optimizer \<lparr>topic = None, outline = None, final_blog = None,
                    blog_score = Some (Fin 7), feedback = None\<rparr> = Inr ''end''"
  using blog_optimizer_routes
    [of "\<lparr>topic = None, outline = None, final_blog = None,
          blog_score = Some (Fin 7), feedback = None\<rparr>" "Fin 7"]
  by simp

subsection \<open>The steps of a run\<close>




















subsection \<open>Scoring step\<close>

lemma float_within_bounds:
  assumes "float_le (Fin 0) s" "float_le s (Fin 10)"
  obtains r where "s = Fin r" "0 \<le> r" "r \<le> 10"
  using assms by (cases s) auto

lemma validate_BlogEvaluation_bounds:
  assumes "validate_BlogEvaluation raw = Inr result"
  shows "float_le (Fin 0) (score result) \<and> float_le (score result) (Fin 10)"
  using assms unfolding validate_BlogEvaluation_def
  by (auto split: option.splits if_splits)

lemma validate_BlogEvaluation_rejects:
  assumes "raw_score raw = Some s" "\<not> (float_le (Fin 0) s \<and> float_le s (Fin 10))"
  shows "validate_BlogEvaluation raw = Inl (ValidationError ''score'')"
  using assms unfolding validate_BlogEvaluation_def by auto

text \<open>
  Claim C8: after every execution of the scoring step the \<open>blog_score\<close> of the state is
  a float in the closed interval from 0 to 10; a structured result of the judge whose
  score is outside these bounds fails validation, and the step ends with the validation
  error without producing a state.
\<close>

theorem score_blog_within_bounds:
  "(score_blog cl w state = Inr (w', state') \<longrightarrow>
      (\<exists>r. blog_score state' = Some (Fin r) \<and> 0 \<le> r \<and> r \<le> 10)) \<and>
   (outline state = Some ol \<and> final_blog state = Some blog \<and>
    llm_judge cl (judge_calls w) (score_prompt ol blog) = Inr raw \<and>
    raw_score raw = Some s \<and> \<not> (float_le (Fin 0) s \<and> float_le s (Fin 10)) \<longrightarrow>
      score_blog cl w state = Inl (ValidationError ''score''))"
proof (intro conjI impI)
  assume run: "score_blog cl w state = Inr (w', state')"
  then obtain raw' result where v: "validate_BlogEvaluation raw' = Inr result"
    and st: "state' = state\<lparr>blog_score := Some (score result),
                             feedback := Some (evaluation_feedback result)\<rparr>"
    unfolding score_blog_def by (auto split: option.splits sum.splits)
  from validate_BlogEvaluation_bounds [OF v]
  obtain r where "score result = Fin r" "0 \<le> r" "r \<le> 10"
    by (auto elim: float_within_bounds)
  then show "\<exists>r. blog_score state' = Some (Fin r) \<and> 0 \<le> r \<and> r \<le> 10"
    using st by simp
next
  assume h: "outline state = Some ol \<and> final_blog state = Some blog \<and>
    llm_judge cl (judge_calls w) (score_prompt ol blog) = Inr raw \<and>
    raw_score raw = Some s \<and> \<not> (float_le (Fin 0) s \<and> float_le s (Fin 10))"
  then have "raw_score raw = Some s" "\<not> (float_le (Fin 0) s \<and> float_le s (Fin 10))"
    by blast+
  then have "validate_BlogEvaluation raw = Inl (ValidationError ''score'')"
    by (rule validate_BlogEvaluation_rejects)
  with h show "score_blog cl w state = Inl (ValidationError ''score'')"
    by (simp add: score_blog_def)
qed

theorem score_blog_within_bounds_witness:
  "score_blog lenient_clients \<lparr>llm_calls = 2, judge_calls = 1\<rparr> drafted_state =
     Inr (\<lparr>llm_calls = 2, judge_calls = 2\<rparr>,
          drafted_state\<lparr>blog_score := Some (Fin 8), feedback := Some ''add more examples''\<rparr>) \<and>
   (\<exists>r. blog_score (drafted_state\<lparr>blog_score := Some (Fin 8),
                                   feedback := Some ''add more examples''\<rparr>) = Some (Fin r) \<and>
        0 \<le> r \<and> r \<le> 10) \<and>
   \<not> (float_le (Fin 0) (Fin 11) \<and> float_le (Fin 11) (Fin 10)) \<and>
   score_blog generous_clients \<lparr>llm_calls = 2, judge_calls = 1\<rparr> drafted_state =
     Inl (ValidationError ''score'')"
proof -
  have run: "score_blog lenient_clients \<lparr>llm_calls = 2, judge_calls = 1\<rparr> drafted_state =
     Inr (\<lparr>llm_calls = 2, judge_calls = 2\<rparr>,
          drafted_state\<lparr>blog_score := Some (Fin 8), feedback := Some ''add more examples''\<rparr>)"
    by (simp add: score_blog_def drafted_state_def lenient_clients_def
        validate_BlogEvaluation_def)
  have a: "\<exists>r. blog_score (drafted_state\<lparr>blog_score := Some (Fin 8),
                                   feedback := Some ''add more examples''\<rparr>) = Some (Fin r) \<and>
        0 \<le> r \<and> r \<le> 10"
    using score_blog_within_bounds
      [of lenient_clients "\<lparr>llm_calls = 2, judge_calls = 1\<rparr>" drafted_state
          "\<lparr>llm_calls = 2, judge_calls = 2\<rparr>"
          "drafted_state\<lparr>blog_score := Some (Fin 8), feedback := Some ''add more examples''\<rparr>"]
      run by blast
  have b: "score_blog generous_clients \<lparr>llm_calls = 2, judge_calls = 1\<rparr> drafted_state =
     Inl (ValidationError ''score'')"
    using score_blog_within_bounds
      [of generous_clients "\<lparr>llm_calls = 2, judge_calls = 1\<rparr>" drafted_state _ _
          "''outline''" "''draft''"
          "\<lparr>raw_score = Some (Fin 11), raw_feedback = Some ''perfect''\<rparr>" "Fin 11"]
    by (simp add: drafted_state_def generous_clients_def)
  from run a b show ?thesis by simp
qed

section \<open>Properties of the conversational graphs\<close>

subsection \<open>The steps of the engine\<close>


lemma drive_AtAgent:
  "drive node tools (AtAgent steps messages) =
     (let messages' = add_messages messages (node messages);
          steps' = steps @ [''agent'']
      in case tools_condition messages' of
           Inl e \<Rightarrow> Some (Failed e)
         | Inr route \<Rightarrow>
             if route = ''tools''
             then (case tool_calls (last messages') of
                     [] \<Rightarrow> drive node tools (AtAgent (steps' @ [''tools'']) messages')
                   | c # cs \<Rightarrow>
                       drive node tools
                         (AtTools (steps' @ [''tools'']) messages' (tools c) cs))
             else Some (Completed steps' messages'))"
  by (subst drive.simps) simp

lemma drive_AtTools_Return_Nil:
  "drive node tools (AtTools steps messages (Return text) []) =
     drive node tools (AtAgent steps (add_messages messages [ToolMessage text]))"
  by (subst drive.simps) simp

lemma drive_AtTools_Return_Cons:
  "drive node tools (AtTools steps messages (Return text) (c # cs)) =
     drive node tools (AtTools steps (add_messages messages [ToolMessage text]) (tools c) cs)"
  by (subst drive.simps) simp

lemma drive_AtTools_Interrupt:
  "drive node tools (AtTools steps messages (Interrupt question rest) cs) =
     Some (AwaitingInput question (Suspension steps messages rest cs))"
  by (subst drive.simps) simp

lemma resume_Interrupt: "resume (Interrupt question rest) = rest"
  by (rule ext) simp

text \<open>The agent step when the response asks for tools, and when it does not.\<close>

lemma drive_agent_calls:
  assumes "node messages = [AIMessage content (c # cs)]"
  shows "drive node tools (AtAgent steps messages) =
           drive node tools
             (AtTools (steps @ [''agent'', ''tools'']) (messages @ [AIMessage content (c # cs)])
                (tools c) cs)"
  by (simp add: drive_AtAgent assms add_messages_def tools_condition_def)

lemma drive_agent_final:
  assumes "node messages = [AIMessage content []]"
  shows "drive node tools (AtAgent steps messages) =
           Some (Completed (steps @ [''agent'']) (messages @ [AIMessage content []]))"
  by (simp add: drive_AtAgent assms add_messages_def tools_condition_def)

section \<open>Properties of the stock market agent\<close>

subsection \<open>The trade tools\<close>


lemma float_lt_not_le: "float_lt a b \<Longrightarrow> \<not> float_le b a"
  by (cases a; cases b) auto

lemma check_not_cross: "check_mark @ xs \<noteq> cross_mark @ ys"
  by (simp add: check_mark_def cross_mark_def)

lemma buy_stocks_unfold:
  "buy_stocks sf t q p =
     (if q \<le> 0 then Return quantity_error
      else if float_le p (Fin 0) then Return price_error
      else Interrupt (buy_question sf t q p)
             (\<lambda>decision. if lower decision = ''yes'' then Return (bought sf t q p)
                           else Return cancelled))"
  unfolding buy_stocks_def interrupt_def quantity_error_def price_error_def
      buy_question_def bought_def cancelled_def by (rule refl)

lemma sell_stocks_unfold:
  "sell_stocks sf t q p =
     (if q \<le> 0 then Return quantity_error
      else if float_le p (Fin 0) then Return price_error
      else Interrupt (sell_question sf t q p)
             (\<lambda>decision. if lower decision = ''yes'' then Return (sold sf t q p)
                           else Return cancelled))"
  unfolding sell_stocks_def interrupt_def quantity_error_def price_error_def
      sell_question_def sold_def cancelled_def by (rule refl)

lemma sublist_mid2: "sublist y (a @ x @ b @ y @ c)"
proof -
  have "a @ x @ b @ y @ c = (a @ x @ b) @ y @ c" by simp
  then show ?thesis by (simp only: sublist_appendI)
qed

lemma sublist_mid3: "sublist z (a @ x @ b @ y @ c @ z @ d)"
proof -
  have "a @ x @ b @ y @ c @ z @ d = (a @ x @ b @ y @ c) @ z @ d" by simp
  then show ?thesis by (simp only: sublist_appendI)
qed

lemma buy_question_names: "names_trade (buy_question sf t q p) t q (sf p)"
  unfolding names_trade_def buy_question_def
  by (intro conjI sublist_appendI sublist_mid2 sublist_mid3)

lemma sell_question_names: "names_trade (sell_question sf t q p) t q (sf p)"
  unfolding names_trade_def sell_question_def
  by (intro conjI sublist_appendI sublist_mid2 sublist_mid3)

lemma bought_names: "names_trade (bought sf t q p) t q (sf p)"
proof -
  have "bought sf t q p = (check_mark @ '' You bought '') @ str_int q @ '' shares of '' @ t @
     '' for $'' @ sf p @ ''.''"
    by (simp add: bought_def)
  then show ?thesis
    unfolding names_trade_def
    by (simp only: sublist_appendI sublist_mid2 sublist_mid3 simp_thms)
qed

lemma sold_names: "names_trade (sold sf t q p) t q (sf p)"
proof -
  have "sold sf t q p = (check_mark @ '' You sold '') @ str_int q @ '' shares of '' @ t @
     '' for $'' @ sf p @ ''.''"
    by (simp add: sold_def)
  then show ?thesis
    unfolding names_trade_def
    by (simp only: sublist_appendI sublist_mid2 sublist_mid3 simp_thms)
qed

lemma lower_yes: "lower ''yes'' = ''yes''" by code_simp
lemma lower_no: "lower ''no'' \<noteq> ''yes''" by code_simp
lemma lower_YES: "lower ''YES'' = ''yes''" by code_simp
lemma lower_Yes: "lower ''Yes'' = ''yes''" by code_simp
lemma lower_empty: "lower [] \<noteq> ''yes''" by (simp add: lower_def)


text \<open>
  Claim C5: a call of \<open>buy_stocks\<close> or \<open>sell_stocks\<close> with a quantity that is not
  positive or a total price that is not positive returns one of the two error texts at
  once, and is not suspended: no confirmation is requested.
\<close>

theorem trade_rejects_non_positive:
  assumes "quantity \<le> 0 \<or> float_le total_price (Fin 0)"
  shows "(buy_stocks sf t quantity total_price = Return quantity_error \<or>
          buy_stocks sf t quantity total_price = Return price_error) \<and>
         \<not> suspended (buy_stocks sf t quantity total_price) \<and>
         (sell_stocks sf t quantity total_price = Return quantity_error \<or>
          sell_stocks sf t quantity total_price = Return price_error) \<and>
         \<not> suspended (sell_stocks sf t quantity total_price)"
  using assms by (auto simp: buy_stocks_unfold sell_stocks_unfold)

theorem trade_rejects_non_positive_witness:
  "buy_stocks sample_str_float ''AAPL'' 0 (Fin 1500) = Return quantity_error \<and>
   \<not> suspended (buy_stocks sample_str_float ''AAPL'' 0 (Fin 1500)) \<and>
   sell_stocks sample_str_float ''AAPL'' 10 (Fin (- 5)) = Return price_error \<and>
   \<not> suspended (sell_stocks sample_str_float ''AAPL'' 10 (Fin (- 5)))"
proof -
  have a: "(0::int) \<le> 0 \<or> float_le (Fin 1500) (Fin 0)" by simp
  have b: "(10::int) \<le> 0 \<or> float_le (Fin (- 5)) (Fin 0)" by simp
  have c: "buy_stocks sample_str_float ''AAPL'' 0 (Fin 1500) = Return quantity_error"
    by (simp add: buy_stocks_unfold)
  have d: "sell_stocks sample_str_float ''AAPL'' 10 (Fin (- 5)) = Return price_error"
    by (simp add: sell_stocks_unfold)
  from trade_rejects_non_positive [OF a, of sample_str_float "''AAPL''"]
    trade_rejects_non_positive [OF b, of sample_str_float "''AAPL''"] c d
  show ?thesis by simp
qed

text \<open>
  Claim C9: for every answer given to a suspended \<open>buy_stocks\<close> or \<open>sell_stocks\<close>
  call, the trade is confirmed if and only if the answer in lower case is "yes", so
  "YES" and "Yes" confirm; every other answer, the empty one included, produces the
  cancellation message. The two tools have the same guards, so one is suspended exactly
  when the other is.
\<close>

theorem trade_confirmed_iff_yes:
  assumes "suspended (buy_stocks sf t q p)"
  shows "suspended (sell_stocks sf t q p) \<and>
         (resume (buy_stocks sf t q p) answer = Return (bought sf t q p) \<longleftrightarrow>
            lower answer = ''yes'') \<and>
         (resume (sell_stocks sf t q p) answer = Return (sold sf t q p) \<longleftrightarrow>
            lower answer = ''yes'') \<and>
         (lower answer \<noteq> ''yes'' \<longrightarrow>
            resume (buy_stocks sf t q p) answer = Return cancelled \<and>
            resume (sell_stocks sf t q p) answer = Return cancelled) \<and>
         resume (buy_stocks sf t q p) ''YES'' = Return (bought sf t q p) \<and>
         resume (buy_stocks sf t q p) ''Yes'' = Return (bought sf t q p) \<and>
         resume (buy_stocks sf t q p) [] = Return cancelled \<and>
         resume (sell_stocks sf t q p) ''YES'' = Return (sold sf t q p) \<and>
         resume (sell_stocks sf t q p) ''Yes'' = Return (sold sf t q p) \<and>
         resume (sell_stocks sf t q p) [] = Return cancelled"
proof -
  from assms have g: "\<not> q \<le> 0" "\<not> float_le p (Fin 0)"
    by (auto simp: buy_stocks_unfold split: if_splits)
  have ne: "bought sf t q p \<noteq> cancelled" "sold sf t q p \<noteq> cancelled"
    by (simp_all add: bought_def sold_def cancelled_def check_mark_def cross_mark_def)
  show ?thesis
    using g ne
    by (simp add: buy_stocks_unfold sell_stocks_unfold lower_YES lower_Yes lower_empty)
qed

theorem trade_confirmed_iff_yes_witness:
  "suspended (buy_stocks sample_str_float ''AAPL'' 10 (Fin 1500)) \<and>
   lower ''yEs'' = ''yes'' \<and>
   resume (buy_stocks sample_str_float ''AAPL'' 10 (Fin 1500)) ''yEs'' =
     Return (bought sample_str_float ''AAPL'' 10 (Fin 1500)) \<and>
   lower ''sure'' \<noteq> ''yes'' \<and>
   resume (sell_stocks sample_str_float ''AAPL'' 10 (Fin 1500)) ''sure'' = Return cancelled"
proof -
  have s: "suspended (buy_stocks sample_str_float ''AAPL'' 10 (Fin 1500))"
    by (simp add: buy_stocks_unfold)
  have y: "lower ''yEs'' = ''yes''" by code_simp
  have n: "lower ''sure'' \<noteq> ''yes''" by code_simp
  from trade_confirmed_iff_yes [OF s, of "''yEs''"] trade_confirmed_iff_yes [OF s, of "''sure''"]
    s y n
  show ?thesis by simp
qed

lemma str_int_10: "str_int 10 = ''10''" by code_simp

lemma sample_question:
  "buy_question sample_str_float ''AAPL'' 10 (Fin 1500) =
     ''Do you want to buy 10 shares of AAPL for $1500.0? (yes/no)''"
  by (simp add: buy_question_def str_int_10 sample_str_float_def)

lemma sample_bought:
  "bought sample_str_float ''AAPL'' 10 (Fin 1500) =
     check_mark @ '' You bought 10 shares of AAPL for $1500.0.''"
  by (simp add: bought_def str_int_10 sample_str_float_def)

text \<open>
  Claim C4: a call of \<open>buy_stocks\<close> with a positive quantity and a positive total
  price suspends with a question that names the ticker symbol, the quantity and the
  price; resumed with "yes" it returns a confirmation that names the same three, and
  resumed with "no" it returns the cancellation message; the same holds for
  \<open>sell_stocks\<close> with its own confirmation. In the graph the tool-execution step then
  stops with the awaiting-input signal that carries the question, and a resume continues
  at that point: the steps started and the messages are those of the suspension, the
  tool's message is appended, and the next step is the agent step. No step that ran
  before the suspension runs again.
\<close>

theorem trade_suspends_and_resumes:
  assumes "0 < q" and "float_lt (Fin 0) p"
  shows "question_of (buy_stocks sf t q p) = Some (buy_question sf t q p) \<and>
         names_trade (buy_question sf t q p) t q (sf p) \<and>
         resume (buy_stocks sf t q p) ''yes'' = Return (bought sf t q p) \<and>
         names_trade (bought sf t q p) t q (sf p) \<and>
         resume (buy_stocks sf t q p) ''no'' = Return cancelled \<and>
         question_of (sell_stocks sf t q p) = Some (sell_question sf t q p) \<and>
         names_trade (sell_question sf t q p) t q (sf p) \<and>
         resume (sell_stocks sf t q p) ''yes'' = Return (sold sf t q p) \<and>
         names_trade (sold sf t q p) t q (sf p) \<and>
         resume (sell_stocks sf t q p) ''no'' = Return cancelled \<and>
         drive node tools (AtTools steps messages (buy_stocks sf t q p) cs) =
           Some (AwaitingInput (buy_question sf t q p)
                   (Suspension steps messages (resume (buy_stocks sf t q p)) cs)) \<and>
         resume_thread node tools
             (Suspension steps messages (resume (buy_stocks sf t q p)) []) ''yes'' =
           drive node tools (AtAgent steps (messages @ [ToolMessage (bought sf t q p)])) \<and>
         resume_thread node tools
             (Suspension steps messages (resume (buy_stocks sf t q p)) []) ''no'' =
           drive node tools (AtAgent steps (messages @ [ToolMessage cancelled])) \<and>
         drive node tools (AtTools steps messages (sell_stocks sf t q p) cs) =
           Some (AwaitingInput (sell_question sf t q p)
                   (Suspension steps messages (resume (sell_stocks sf t q p)) cs)) \<and>
         resume_thread node tools
             (Suspension steps messages (resume (sell_stocks sf t q p)) []) ''yes'' =
           drive node tools (AtAgent steps (messages @ [ToolMessage (sold sf t q p)])) \<and>
         resume_thread node tools
             (Suspension steps messages (resume (sell_stocks sf t q p)) []) ''no'' =
           drive node tools (AtAgent steps (messages @ [ToolMessage cancelled]))"
proof -
  from assms have g: "\<not> q \<le> 0" "\<not> float_le p (Fin 0)"
    by (auto dest: float_lt_not_le)
  let ?kb = "\<lambda>decision. if lower decision = ''yes'' then Return (bought sf t q p)
                           else Return cancelled"
  let ?ks = "\<lambda>decision. if lower decision = ''yes'' then Return (sold sf t q p)
                           else Return cancelled"
  have b: "buy_stocks sf t q p = Interrupt (buy_question sf t q p) ?kb"
    using g by (simp add: buy_stocks_unfold)
  have s: "sell_stocks sf t q p = Interrupt (sell_question sf t q p) ?ks"
    using g by (simp add: sell_stocks_unfold)
  have rb: "resume (buy_stocks sf t q p) = ?kb" by (simp only: b resume_Interrupt)
  have rs: "resume (sell_stocks sf t q p) = ?ks" by (simp only: s resume_Interrupt)
  have tools_b: "resume (buy_stocks sf t q p) ''yes'' = Return (bought sf t q p)"
    "resume (buy_stocks sf t q p) ''no'' = Return cancelled"
    by (simp_all add: rb lower_yes lower_no)
  have tools_s: "resume (sell_stocks sf t q p) ''yes'' = Return (sold sf t q p)"
    "resume (sell_stocks sf t q p) ''no'' = Return cancelled"
    by (simp_all add: rs lower_yes lower_no)
  have qb: "question_of (buy_stocks sf t q p) = Some (buy_question sf t q p)"
    by (simp add: b)
  have qs: "question_of (sell_stocks sf t q p) = Some (sell_question sf t q p)"
    by (simp add: s)
  have db: "drive node tools (AtTools steps messages (buy_stocks sf t q p) cs) =
           Some (AwaitingInput (buy_question sf t q p)
                   (Suspension steps messages (resume (buy_stocks sf t q p)) cs))"
    unfolding rb by (simp only: b drive_AtTools_Interrupt)
  have ds: "drive node tools (AtTools steps messages (sell_stocks sf t q p) cs) =
           Some (AwaitingInput (sell_question sf t q p)
                   (Suspension steps messages (resume (sell_stocks sf t q p)) cs))"
    unfolding rs by (simp only: s drive_AtTools_Interrupt)
  have eb: "resume_thread node tools
             (Suspension steps messages (resume (buy_stocks sf t q p)) []) ''yes'' =
           drive node tools (AtAgent steps (messages @ [ToolMessage (bought sf t q p)]))"
    "resume_thread node tools
             (Suspension steps messages (resume (buy_stocks sf t q p)) []) ''no'' =
           drive node tools (AtAgent steps (messages @ [ToolMessage cancelled]))"
    by (simp_all add: tools_b drive_AtTools_Return_Nil add_messages_def)
  have es: "resume_thread node tools
             (Suspension steps messages (resume (sell_stocks sf t q p)) []) ''yes'' =
           drive node tools (AtAgent steps (messages @ [ToolMessage (sold sf t q p)]))"
    "resume_thread node tools
             (Suspension steps messages (resume (sell_stocks sf t q p)) []) ''no'' =
           drive node tools (AtAgent steps (messages @ [ToolMessage cancelled]))"
    by (simp_all add: tools_s drive_AtTools_Return_Nil add_messages_def)
  show ?thesis
    by (intro conjI qb qs tools_b tools_s db ds eb es
        buy_question_names sell_question_names bought_names sold_names)
qed

theorem trade_suspends_and_resumes_witness:
  "(0::int) < 10 \<and> float_lt (Fin 0) (Fin 1500) \<and>
   invoke_thread (agent sample_llm) (stock_tools sample_env) [] ''Buy 10 shares of AAPL'' =
     Some (AwaitingInput ''Do you want to buy 10 shares of AAPL for $1500.0? (yes/no)''
             (Suspension [''agent'', ''tools'']
                [HumanMessage ''Buy 10 shares of AAPL'',
                 AIMessage [] [Buy_stocks ''AAPL'' 10 (Fin 1500)]]
                (resume (buy_stocks sample_str_float ''AAPL'' 10 (Fin 1500))) [])) \<and>
   resume_thread (agent sample_llm) (stock_tools sample_env)
       (Suspension [''agent'', ''tools'']
          [HumanMessage ''Buy 10 shares of AAPL'',
           AIMessage [] [Buy_stocks ''AAPL'' 10 (Fin 1500)]]
          (resume (buy_stocks sample_str_float ''AAPL'' 10 (Fin 1500))) []) ''yes'' =
     Some (Completed [''agent'', ''tools'', ''agent'']
             [HumanMessage ''Buy 10 shares of AAPL'',
              AIMessage [] [Buy_stocks ''AAPL'' 10 (Fin 1500)],
              ToolMessage (check_mark @ '' You bought 10 shares of AAPL for $1500.0.''),
              AIMessage ''Done.'' []])"
proof -
  have q: "(0::int) < 10" and p: "float_lt (Fin 0) (Fin 1500)" by simp_all
  let ?node = "agent sample_llm"
  let ?tools = "stock_tools sample_env"
  let ?history = "[HumanMessage ''Buy 10 shares of AAPL'',
                   AIMessage [] [Buy_stocks ''AAPL'' 10 (Fin 1500)]]"
  note round_trip = trade_suspends_and_resumes [OF q p, of sample_str_float "''AAPL''" ?node ?tools
      "[''agent'', ''tools'']" ?history "[]"]
  have first: "?node [HumanMessage ''Buy 10 shares of AAPL''] =
                 [AIMessage [] [Buy_stocks ''AAPL'' 10 (Fin 1500)]]"
    by (simp add: agent_def sample_llm_def)
  have tool: "?tools (Buy_stocks ''AAPL'' 10 (Fin 1500)) =
                buy_stocks sample_str_float ''AAPL'' 10 (Fin 1500)"
    by (simp add: sample_env_def)
  have "invoke_thread ?node ?tools [] ''Buy 10 shares of AAPL'' =
          drive ?node ?tools
            (AtTools [''agent'', ''tools''] ?history
               (buy_stocks sample_str_float ''AAPL'' 10 (Fin 1500)) [])"
    unfolding invoke_thread_def add_messages_def
    using drive_agent_calls
      [where node = ?node and messages = "[HumanMessage ''Buy 10 shares of AAPL'']"
         and tools = ?tools and steps = "[]", OF first]
    by (simp add: sample_env_def)
  with round_trip have a: "invoke_thread ?node ?tools [] ''Buy 10 shares of AAPL'' =
     Some (AwaitingInput ''Do you want to buy 10 shares of AAPL for $1500.0? (yes/no)''
             (Suspension [''agent'', ''tools''] ?history
                (resume (buy_stocks sample_str_float ''AAPL'' 10 (Fin 1500))) []))"
    by (simp add: sample_question)
  have last: "?node (?history @ [ToolMessage (bought sample_str_float ''AAPL'' 10 (Fin 1500))]) =
                [AIMessage ''Done.'' []]"
    by (simp add: agent_def sample_llm_def)
  from round_trip have "resume_thread ?node ?tools
       (Suspension [''agent'', ''tools''] ?history
          (resume (buy_stocks sample_str_float ''AAPL'' 10 (Fin 1500))) []) ''yes'' =
     drive ?node ?tools (AtAgent [''agent'', ''tools'']
        (?history @ [ToolMessage (bought sample_str_float ''AAPL'' 10 (Fin 1500))]))"
    by blast
  also have "\<dots> = Some (Completed ([''agent'', ''tools''] @ [''agent''])
       ((?history @ [ToolMessage (bought sample_str_float ''AAPL'' 10 (Fin 1500))]) @
        [AIMessage ''Done.'' []]))"
    by (rule drive_agent_final
        [where node = ?node
           and messages = "?history @ [ToolMessage (bought sample_str_float ''AAPL'' 10 (Fin 1500))]",
         OF last])
  finally have b: "resume_thread ?node ?tools
       (Suspension [''agent'', ''tools''] ?history
          (resume (buy_stocks sample_str_float ''AAPL'' 10 (Fin 1500))) []) ''yes'' =
     Some (Completed [''agent'', ''tools'', ''agent'']
             [HumanMessage ''Buy 10 shares of AAPL'',
              AIMessage [] [Buy_stocks ''AAPL'' 10 (Fin 1500)],
              ToolMessage (check_mark @ '' You bought 10 shares of AAPL for $1500.0.''),
              AIMessage ''Done.'' []])"
    by (simp add: sample_bought)
  from q p a b show ?thesis by blast
qed



subsection \<open>The price tool\<close>










lemma normalize_AAPL: "strip (upper ''AAPL'') = ''AAPL''" by code_simp
lemma normalize_DOWN: "strip (upper ''down'') = ''DOWN''" by code_simp
lemma normalize_ZZZZ: "strip (upper ''zzzz'') = ''ZZZZ''" by code_simp
lemma normalize_BARE: "strip (upper ''bare'') = ''BARE''" by code_simp

lemma floor_sample: "\<lfloor>(60075::real) / 4\<rfloor> = 15018"
  by (simp add: floor_eq_iff)

lemma round_half_even_sample: "round_half_even (60075 / 4) = 15019"
  by (simp add: round_half_even_def Let_def floor_sample)

lemma round2_sample: "round2 (Fin (2403 / 16)) = Fin (15019 / 100)"
  by (simp add: round_half_even_sample)



text \<open>
  Claim C6, as stated: when data exists the tool returns the last closing price of the
  history. The tool returns \<open>round(float(current_price), 2)\<close>: with a last close of
  150.1875 the result is 150.19, not the last close.
\<close>

theorem get_stock_price_unrounded_counterexample:
  "sample_yf ''AAPL'' ''1d'' =
     Returns \<lparr>empty_history = False, close_iloc_last = Returns (Fin (2403 / 16))\<rparr> \<and>
   get_stock_price sample_yf ''AAPL'' ''1d'' = Number (Fin (15019 / 100)) \<and>
   get_stock_price sample_yf ''AAPL'' ''1d'' \<noteq> Number (Fin (2403 / 16))"
  by (simp add: get_stock_price_def normalize_AAPL sample_yf_def round_half_even_sample)

text \<open>
  Claim C6, amended: for every ticker symbol and period, \<open>get_stock_price\<close> returns
  the last closing price of the retrieved history, rounded to two decimal places, as a
  float when data exists; when no data is found for the symbol it returns an error text
  that names the symbol, and when the provider or the read of the last close raises, it
  returns the error text "An error occurred: ..." with the exception's message. In no
  case does the tool raise.
\<close>

theorem get_stock_price_results:
  "(market (strip (upper t)) period = Returns h \<and> \<not> empty_history h \<and>
    close_iloc_last h = Returns c \<longrightarrow>
      get_stock_price market t period = Number (round2 c)) \<and>
   (market (strip (upper t)) period = Returns h \<and> empty_history h \<longrightarrow>
      get_stock_price market t period = Text (no_data_message (strip (upper t)))) \<and>
   (market (strip (upper t)) period = Raises e \<longrightarrow>
      get_stock_price market t period = Text (''An error occurred: '' @ e)) \<and>
   (market (strip (upper t)) period = Returns h \<and> \<not> empty_history h \<and>
    close_iloc_last h = Raises e \<longrightarrow>
      get_stock_price market t period = Text (''An error occurred: '' @ e))"
  by (simp add: get_stock_price_def no_data_message_def)

theorem get_stock_price_results_witness:
  "get_stock_price sample_yf ''AAPL'' ''1d'' = Number (round2 (Fin (2403 / 16))) \<and>
   get_stock_price sample_yf ''zzzz'' ''1d'' = Text (no_data_message ''ZZZZ'') \<and>
   get_stock_price sample_yf ''down'' ''5d'' = Text (''An error occurred: connection refused'') \<and>
   get_stock_price sample_yf ''bare'' ''1mo'' = Text (''An error occurred: '' @ [sq] @ ''Close'' @ [sq])"
proof -
  let ?bare = "\<lparr>empty_history = False, close_iloc_last = Raises ([sq] @ ''Close'' @ [sq])\<rparr>"
  have d: "sample_yf (strip (upper ''bare'')) ''1mo'' = Returns ?bare \<and>
           \<not> empty_history ?bare \<and> close_iloc_last ?bare = Raises ([sq] @ ''Close'' @ [sq])"
    by (simp add: normalize_BARE sample_yf_def)
  have 4: "get_stock_price sample_yf ''bare'' ''1mo'' =
             Text (''An error occurred: '' @ [sq] @ ''Close'' @ [sq])"
    using get_stock_price_results
      [where market = sample_yf and t = "''bare''" and period = "''1mo''" and h = ?bare
         and e = "[sq] @ ''Close'' @ [sq]"] d
    by (simp only: simp_thms)
  let ?known = "\<lparr>empty_history = False, close_iloc_last = Returns (Fin (2403 / 16))\<rparr>"
  let ?unknown = "\<lparr>empty_history = True,
                   close_iloc_last = Raises ''single positional indexer is out-of-bounds''\<rparr>"
  have a: "sample_yf (strip (upper ''AAPL'')) ''1d'' = Returns ?known \<and>
           \<not> empty_history ?known \<and> close_iloc_last ?known = Returns (Fin (2403 / 16))"
    by (simp add: normalize_AAPL sample_yf_def)
  have b: "sample_yf (strip (upper ''zzzz'')) ''1d'' = Returns ?unknown \<and> empty_history ?unknown"
    by (simp add: normalize_ZZZZ sample_yf_def)
  have c: "sample_yf (strip (upper ''down'')) ''5d'' = Raises ''connection refused''"
    by (simp add: normalize_DOWN sample_yf_def)
  have 1: "get_stock_price sample_yf ''AAPL'' ''1d'' = Number (round2 (Fin (2403 / 16)))"
    using get_stock_price_results
      [where market = sample_yf and t = "''AAPL''" and period = "''1d''" and h = ?known
         and c = "Fin (2403 / 16)"] a
    by (simp only: simp_thms)
  have 2: "get_stock_price sample_yf ''zzzz'' ''1d'' = Text (no_data_message ''ZZZZ'')"
    using get_stock_price_results
      [where market = sample_yf and t = "''zzzz''" and period = "''1d''" and h = ?unknown] b
    by (simp only: simp_thms normalize_ZZZZ)
  have 3: "get_stock_price sample_yf ''down'' ''5d'' =
             Text (''An error occurred: connection refused'')"
    using get_stock_price_results
      [where market = sample_yf and t = "''down''" and period = "''5d''"
         and e = "''connection refused''"] c
    by (simp only: simp_thms append.simps)
  from 1 2 3 4 show ?thesis by (simp only: simp_thms)
qed



subsection \<open>Routing\<close>







section \<open>Properties of the chatbot\<close>

subsection \<open>The calculator\<close>






end
